theory Spec2Isabelle
  imports Complex_Main "HOL-Library.Sublist" "HOL-Library.Multiset"
begin

section \<open>Python values used by the service finder\<close>

text \<open>
  The view \<open>peza_api\<close> of \<open>core/service_finder_api.py\<close> reads four query parameters,
  posts one Overpass query, and turns the returned elements into a ranked list of
  locations. The model below follows the view line by line. Strings are \<open>string\<close>,
  dictionaries with string keys are maps, Python's unbounded \<open>int\<close> is \<open>int\<close>.
  The view runs behind \<open>require_http_methods(["GET"])\<close>; the model is the body of the
  view, that is, what a GET request with the given query parameters produces.
\<close>

definition dq :: string where
  "dq = [CHR 0x22]"

definition sq :: string where
  "sq = [CHR 0x27]"

definition nl :: string where
  "nl = [CHR 0x0A]"

text \<open>\<open>d.get(k, default)\<close> on a dictionary.\<close>

definition dict_get :: "('k \<rightharpoonup> 'v) \<Rightarrow> 'k \<Rightarrow> 'v \<Rightarrow> 'v" where
  "dict_get d k dflt = (case d k of None \<Rightarrow> dflt | Some v \<Rightarrow> v)"

text \<open>Truthiness of \<open>d.get(k)\<close> for a string-valued dictionary: \<open>None\<close> and the empty
  string are false.\<close>

definition truthy :: "string option \<Rightarrow> bool" where
  "truthy v = (case v of None \<Rightarrow> False | Some s \<Rightarrow> s \<noteq> [])"

text \<open>\<open>sep.join(parts)\<close>.\<close>

fun join :: "string \<Rightarrow> string list \<Rightarrow> string" where
  "join sep [] = []"
| "join sep [x] = x"
| "join sep (x # y # ys) = x @ sep @ join sep (y # ys)"

text \<open>\<open>str(n)\<close> and \<open>f"{n}"\<close> for an \<open>int\<close>: decimal digits, a minus sign when negative.\<close>

fun str_nat :: "nat \<Rightarrow> string" where
  "str_nat n =
     (if n < 10 then [''0123456789'' ! n]
      else str_nat (n div 10) @ [''0123456789'' ! (n mod 10)])"

declare str_nat.simps [simp del]

definition str_int :: "int \<Rightarrow> string" where
  "str_int i = (if i < 0 then ''-'' @ str_nat (nat (- i)) else str_nat (nat i))"

subsection \<open>Exceptions\<close>

text \<open>
  The view distinguishes two classes of exception: \<open>requests.RequestException\<close> and
  every other \<open>Exception\<close>. Each carries \<open>str(e)\<close>, which the view copies into the
  \<open>details\<close> field. A computation that may raise returns a sum, \<open>Inl\<close> the exception.
\<close>

datatype exn = RequestException string | OtherException string

definition and_then :: "'e + 'a \<Rightarrow> ('a \<Rightarrow> 'e + 'b) \<Rightarrow> 'e + 'b" where
  "and_then m k = (case m of Inl e \<Rightarrow> Inl e | Inr v \<Rightarrow> k v)"

subsection \<open>The float type and the \<open>math\<close> module\<close>

text \<open>
  Python's \<open>float\<close>, its conversions and formatting, and the functions imported from
  \<open>math\<close> are not code of this repository. They are a parameter of the model: a record
  of operations over a type \<open>'f\<close> of float values. An operation that can raise returns a
  sum whose left side is the exception's message; all of these are \<open>ValueError\<close> or
  \<open>OverflowError\<close>, never a \<open>RequestException\<close>.
\<close>

record 'f pylib =
  f_int :: "string \<Rightarrow> string + int"  \<comment> \<open>\<open>int(s)\<close> for a string\<close>
  f_float :: "string \<Rightarrow> 'f option"  \<comment> \<open>\<open>float(s)\<close>; \<open>None\<close> is \<open>ValueError\<close>\<close>
  f_of_int :: "int \<Rightarrow> 'f"  \<comment> \<open>an \<open>int\<close> operand of a float operation\<close>
  f_is_zero :: "'f \<Rightarrow> bool"  \<comment> \<open>\<open>not x\<close>\<close>
  f_fmt :: "nat \<Rightarrow> 'f \<Rightarrow> string"  \<comment> \<open>\<open>f"{x:.nf}"\<close>\<close>
  f_repr :: "'f \<Rightarrow> string"  \<comment> \<open>\<open>f"{x}"\<close>\<close>
  f_radians :: "'f \<Rightarrow> 'f"
  f_sin :: "'f \<Rightarrow> string + 'f"
  f_cos :: "'f \<Rightarrow> string + 'f"
  f_sqrt :: "'f \<Rightarrow> string + 'f"
  f_atan2 :: "'f \<Rightarrow> 'f \<Rightarrow> 'f"
  f_add :: "'f \<Rightarrow> 'f \<Rightarrow> 'f"
  f_sub :: "'f \<Rightarrow> 'f \<Rightarrow> 'f"
  f_mul :: "'f \<Rightarrow> 'f \<Rightarrow> 'f"
  f_div :: "'f \<Rightarrow> 'f \<Rightarrow> 'f"  \<comment> \<open>used with the divisor 2 only\<close>
  f_pow :: "'f \<Rightarrow> int \<Rightarrow> string + 'f"  \<comment> \<open>\<open>x ** n\<close>\<close>
  f_less :: "'f \<Rightarrow> 'f \<Rightarrow> bool"
  f_trunc :: "'f \<Rightarrow> string + int"  \<comment> \<open>\<open>int(x)\<close>; raises on NaN and infinities\<close>

section \<open>\<open>format_address\<close>\<close>

definition format_address :: "(string \<rightharpoonup> string) \<Rightarrow> string" where
  "format_address tags =
     (let parts = [];
          street = dict_get tags ''addr:street'' [];
          housenumber = dict_get tags ''addr:housenumber'' [];
          parts = (if housenumber \<noteq> [] \<and> street \<noteq> [] then parts @ [housenumber @ '' '' @ street]
                   else if street \<noteq> [] then parts @ [street]
                   else parts);
          city = dict_get tags ''addr:city'' (dict_get tags ''addr:suburb'' []);
          parts = (if city \<noteq> [] then parts @ [city] else parts);
          parts = (if parts = [] then
                     (if truthy (tags ''addr:place'') then parts @ [the (tags ''addr:place'')]
                      else if truthy (tags ''location'') then parts @ [the (tags ''location'')]
                      else parts)
                   else parts)
      in if parts \<noteq> [] then join '', '' parts else ''Address not available'')"

section \<open>\<open>calculate_distance\<close>\<close>

text \<open>
  The haversine computation, written over the operations of the library in the order in
  which Python evaluates them. What the result is as a number (its sign, its rounding,
  whether \<open>sqrt(1 - a)\<close> is defined) depends on the float arithmetic behind the
  operations and is not fixed by this model.
\<close>

definition calculate_distance ::
  "'f pylib \<Rightarrow> 'f \<Rightarrow> 'f \<Rightarrow> 'f \<Rightarrow> 'f \<Rightarrow> string + (string \<times> int)" where
  "calculate_distance L lat1 lon1 lat2 lon2 =
     (let R = f_of_int L 6371;
          lat1 = f_radians L lat1; lon1 = f_radians L lon1;
          lat2 = f_radians L lat2; lon2 = f_radians L lon2;
          dlat = f_sub L lat2 lat1;
          dlon = f_sub L lon2 lon1
      in and_then (f_sin L (f_div L dlat (f_of_int L 2))) (\<lambda>s1.
         and_then (f_pow L s1 2) (\<lambda>s1sq.
         and_then (f_cos L lat1) (\<lambda>c1.
         and_then (f_cos L lat2) (\<lambda>c2.
         and_then (f_sin L (f_div L dlon (f_of_int L 2))) (\<lambda>s2.
         and_then (f_pow L s2 2) (\<lambda>s2sq.
         let a = f_add L s1sq (f_mul L (f_mul L c1 c2) s2sq) in
         and_then (f_sqrt L a) (\<lambda>sa.
         and_then (f_sqrt L (f_sub L (f_of_int L 1) a)) (\<lambda>sb.
         let c = f_mul L (f_of_int L 2) (f_atan2 L sa sb);
             distance_km = f_mul L R c
         in and_then (f_trunc L (f_mul L distance_km (f_of_int L 1000))) (\<lambda>distance_meters.
            let distance_text =
                  (if f_less L distance_km (f_of_int L 1) then str_int distance_meters @ '' m''
                   else f_fmt L 1 distance_km @ '' km'')
            in Inr (distance_text, distance_meters)))))))))))"

section \<open>The view \<open>peza_api\<close>\<close>

subsection \<open>Data\<close>

text \<open>
  An element of the Overpass answer: a node carries \<open>lat\<close> and \<open>lon\<close>, a way or a
  relation carries a \<open>center\<close> with \<open>lat\<close> and \<open>lon\<close>; each key may be missing. The
  coordinates are floats, the tags a dictionary from strings to strings.
\<close>

record 'f center =
  c_lat :: "'f option"
  c_lon :: "'f option"

record 'f element =
  e_lat :: "'f option"
  e_lon :: "'f option"
  e_center :: "'f center option"
  e_tags :: "(string \<rightharpoonup> string) option"

record 'f payload =
  p_elements :: "'f element list option"

record 'f location =
  l_name :: string
  l_category :: string
  l_address :: string
  l_distance :: string
  l_distance_meters :: int
  l_lat :: 'f
  l_lon :: 'f
  l_phone :: string
  l_opening_hours :: string
  l_website :: string
  l_emergency :: bool
  l_operator :: string

record 'f search_params =
  sp_latitude :: 'f
  sp_longitude :: 'f
  sp_category :: string
  sp_radius_meters :: int

text \<open>The three shapes of JSON body the view returns, and the response with its status.\<close>

datatype 'f body =
    ErrorBody string  \<comment> \<open>\<open>{"error": msg}\<close>\<close>
  | FailureBody string string  \<comment> \<open>\<open>{"success": False, "error": msg, "details": text}\<close>\<close>
  | SuccessBody nat "'f location list" "'f search_params"
      \<comment> \<open>\<open>{"success": True, "count", "locations", "search_params"}\<close>\<close>

record 'f response =
  status :: nat
  body :: "'f body"

text \<open>The arguments of the one \<open>requests.post\<close> call.\<close>

record http_request =
  h_url :: string
  h_data :: string
  h_timeout :: nat
  h_user_agent :: string

subsection \<open>Building the query\<close>

definition category_map :: "string \<rightharpoonup> string" where
  "category_map = map_of
     [(''police'', ''amenity=police''),
      (''hospital'', ''amenity=hospital''),
      (''ambulance'', ''amenity~'' @ dq @ ''hospital|clinic|doctors'' @ dq),
      (''fire'', ''amenity=fire_station''),
      (''pharmacy'', ''amenity=pharmacy''),
      (''utility'', ''office~'' @ dq @ ''company|government'' @ dq)]"

definition query_filter :: "string \<Rightarrow> string" where
  "query_filter category =
     (if category = ''all'' then ''amenity~'' @ dq @ ''police|hospital|fire_station|clinic'' @ dq
      else dict_get category_map category ''amenity=hospital'')"

definition overpass_query :: "string \<Rightarrow> string \<Rightarrow> string \<Rightarrow> string \<Rightarrow> string" where
  "overpass_query qf radius lat lon =
     nl @
     ''            [out:json][timeout:15];'' @ nl @
     ''            ('' @ nl @
     ''                node['' @ qf @ ''](around:'' @ radius @ '','' @ lat @ '','' @ lon @ '');'' @ nl @
     ''                way['' @ qf @ ''](around:'' @ radius @ '','' @ lat @ '','' @ lon @ '');'' @ nl @
     ''                relation['' @ qf @ ''](around:'' @ radius @ '','' @ lat @ '','' @ lon @ '');'' @ nl @
     ''            );'' @ nl @
     ''            out center tags;'' @ nl @
     ''        ''"

definition outbound ::
  "'f pylib \<Rightarrow> string \<Rightarrow> int \<Rightarrow> 'f \<Rightarrow> 'f \<Rightarrow> http_request" where
  "outbound L category radius lat lon =
     \<lparr>h_url = ''https://overpass-api.de/api/interpreter'',
      h_data = overpass_query (query_filter category) (str_int radius) (f_repr L lat) (f_repr L lon),
      h_timeout = 20,
      h_user_agent = ''Peza Safety App/1.0''\<rparr>"

subsection \<open>Normalising the elements\<close>

text \<open>\<open>a or b\<close> and \<open>not a\<close> on an optional float: \<open>None\<close> and zero are false.\<close>

definition falsy :: "'f pylib \<Rightarrow> 'f option \<Rightarrow> bool" where
  "falsy L v = (case v of None \<Rightarrow> True | Some x \<Rightarrow> f_is_zero L x)"

definition py_or :: "'f pylib \<Rightarrow> 'f option \<Rightarrow> 'f option \<Rightarrow> 'f option" where
  "py_or L a b = (if falsy L a then b else a)"

definition elem_lat :: "'f pylib \<Rightarrow> 'f element \<Rightarrow> 'f option" where
  "elem_lat L element =
     py_or L (e_lat element) (case e_center element of None \<Rightarrow> None | Some c \<Rightarrow> c_lat c)"

definition elem_lon :: "'f pylib \<Rightarrow> 'f element \<Rightarrow> 'f option" where
  "elem_lon L element =
     py_or L (e_lon element) (case e_center element of None \<Rightarrow> None | Some c \<Rightarrow> c_lon c)"

text \<open>The coordinate the loop goes on with, or \<open>None\<close> when it takes \<open>continue\<close> at the
  test \<open>not elem_lat or not elem_lon\<close>.\<close>

definition resolve :: "'f pylib \<Rightarrow> 'f element \<Rightarrow> ('f \<times> 'f) option" where
  "resolve L element =
     (if falsy L (elem_lat L element) \<or> falsy L (elem_lon L element) then None
      else Some (the (elem_lat L element), the (elem_lon L element)))"

definition coord_key :: "'f pylib \<Rightarrow> 'f \<Rightarrow> 'f \<Rightarrow> string" where
  "coord_key L la lo = f_fmt L 5 la @ '','' @ f_fmt L 5 lo"

definition elem_tags :: "'f element \<Rightarrow> (string \<rightharpoonup> string)" where
  "elem_tags element = (case e_tags element of None \<Rightarrow> Map.empty | Some t \<Rightarrow> t)"

definition display_name :: "(string \<rightharpoonup> string) \<Rightarrow> string" where
  "display_name tags = dict_get tags ''name'' ''Unknown Location''"

definition skip_unnamed :: "string \<Rightarrow> string \<Rightarrow> bool" where
  "skip_unnamed name category =
     (name = ''Unknown Location'' \<and> category \<notin> set [''police'', ''hospital'', ''fire''])"

definition make_location ::
  "string \<Rightarrow> (string \<rightharpoonup> string) \<Rightarrow> 'f \<Rightarrow> 'f \<Rightarrow> string \<Rightarrow> int \<Rightarrow> 'f location" where
  "make_location category tags la lo distance_text distance_meters =
     \<lparr>l_name = display_name tags,
      l_category = dict_get tags ''amenity'' category,
      l_address = format_address tags,
      l_distance = distance_text,
      l_distance_meters = distance_meters,
      l_lat = la,
      l_lon = lo,
      l_phone = dict_get tags ''phone'' (dict_get tags ''contact:phone'' []),
      l_opening_hours = dict_get tags ''opening_hours'' [],
      l_website = dict_get tags ''website'' (dict_get tags ''contact:website'' []),
      l_emergency = (dict_get tags ''emergency'' [] = ''yes''),
      l_operator = dict_get tags ''operator'' []\<rparr>"

text \<open>
  The \<open>for\<close> loop over the elements, with its two pieces of state: the set
  \<open>seen_coords\<close> and the list \<open>locations\<close>. An exception of \<open>calculate_distance\<close> leaves
  the loop.
\<close>

fun collect ::
  "'f pylib \<Rightarrow> string \<Rightarrow> 'f \<Rightarrow> 'f \<Rightarrow> 'f element list \<Rightarrow> string set \<Rightarrow> 'f location list
     \<Rightarrow> string + 'f location list" where
  "collect L category lat lon [] seen_coords locations = Inr locations"
| "collect L category lat lon (element # rest) seen_coords locations =
     (case resolve L element of
        None \<Rightarrow> collect L category lat lon rest seen_coords locations
      | Some (la, lo) \<Rightarrow>
          if coord_key L la lo \<in> seen_coords
          then collect L category lat lon rest seen_coords locations
          else if skip_unnamed (display_name (elem_tags element)) category
          then collect L category lat lon rest (insert (coord_key L la lo) seen_coords) locations
          else (case calculate_distance L lat lon la lo of
                  Inl err \<Rightarrow> Inl err
                | Inr (distance_text, distance_meters) \<Rightarrow>
                    collect L category lat lon rest (insert (coord_key L la lo) seen_coords)
                      (locations @
                         [make_location category (elem_tags element) la lo
                            distance_text distance_meters])))"

subsection \<open>The handler\<close>

text \<open>\<open>data.get("elements", [])\<close>.\<close>

definition payload_elements :: "'f payload \<Rightarrow> 'f element list" where
  "payload_elements data = (case p_elements data of None \<Rightarrow> [] | Some es \<Rightarrow> es)"

definition bad_request :: "string \<Rightarrow> 'f response" where
  "bad_request msg = \<lparr>status = 400, body = ErrorBody msg\<rparr>"

text \<open>
  The \<open>try\<close> block, in two parts. The result of each is what the block returns or the
  exception that leaves it, together with the outbound calls made on the way.
  \<open>search\<close> is the block from the clamping of the radius to the end, for parameters that
  passed validation.
\<close>

definition search ::
  "'f pylib \<Rightarrow> (http_request \<Rightarrow> exn + 'f payload) \<Rightarrow> string \<Rightarrow> int \<Rightarrow> 'f \<Rightarrow> 'f
     \<Rightarrow> (exn + 'f response) \<times> http_request list" where
  "search L post category radius lat lon =
     (let radius = (if radius > 20000 then 20000 else radius);
          call = outbound L category radius lat lon
      in case post call of
           Inl e \<Rightarrow> (Inl e, [call])
         | Inr data \<Rightarrow>
             (case collect L category lat lon (payload_elements data) {} [] of
                Inl err \<Rightarrow> (Inl (OtherException err), [call])
              | Inr locations \<Rightarrow>
                  (let locations = sort_key l_distance_meters locations;
                       locations = take 20 locations
                   in (Inr \<lparr>status = 200,
                            body = SuccessBody (length locations) locations
                              \<lparr>sp_latitude = lat, sp_longitude = lon,
                               sp_category = category,
                               sp_radius_meters = radius\<rparr>\<rparr>,
                       [call]))))"

text \<open>\<open>int(request.GET.get('radius', 5000))\<close>.\<close>

definition radius_param :: "'f pylib \<Rightarrow> (string \<rightharpoonup> string) \<Rightarrow> string + int" where
  "radius_param L GET = (case GET ''radius'' of None \<Rightarrow> Inr 5000 | Some s \<Rightarrow> f_int L s)"

definition peza_try ::
  "'f pylib \<Rightarrow> (http_request \<Rightarrow> exn + 'f payload) \<Rightarrow> (string \<rightharpoonup> string)
     \<Rightarrow> (exn + 'f response) \<times> http_request list" where
  "peza_try L post GET =
     (let lat = GET ''lat'';
          lon = GET ''lon'';
          category = dict_get GET ''category'' ''all''
      in case radius_param L GET of
           Inl err \<Rightarrow> (Inl (OtherException err), [])
         | Inr radius \<Rightarrow>
             if \<not> truthy lat \<or> \<not> truthy lon
             then (Inr (bad_request ''Missing required parameters: lat and lon''), [])
             else (case f_float L (the lat) of
                     None \<Rightarrow> (Inr (bad_request ''Invalid coordinates format''), [])
                   | Some lat \<Rightarrow>
                       (case f_float L (the lon) of
                          None \<Rightarrow> (Inr (bad_request ''Invalid coordinates format''), [])
                        | Some lon \<Rightarrow> search L post category radius lat lon)))"

text \<open>The two \<open>except\<close> clauses around the block.\<close>

definition peza_api ::
  "'f pylib \<Rightarrow> (http_request \<Rightarrow> exn + 'f payload) \<Rightarrow> (string \<rightharpoonup> string)
     \<Rightarrow> 'f response \<times> http_request list" where
  "peza_api L post GET =
     (case peza_try L post GET of
        (Inr r, calls) \<Rightarrow> (r, calls)
      | (Inl (RequestException details), calls) \<Rightarrow>
          (\<lparr>status = 503,
            body = FailureBody ''Failed to fetch emergency services. Please try again.'' details\<rparr>,
           calls)
      | (Inl (OtherException details), calls) \<Rightarrow>
          (\<lparr>status = 500, body = FailureBody ''Internal server error'' details\<rparr>, calls))"


section \<open>Notions used to state the properties\<close>

text \<open>The key of a returned location: its latitude and its longitude, each formatted
  with five decimals, joined by a comma.\<close>

definition loc_key :: "'f pylib \<Rightarrow> 'f location \<Rightarrow> string" where
  "loc_key L l = f_fmt L 5 (l_lat l) @ '','' @ f_fmt L 5 (l_lon l)"

text \<open>The position, in encounter order, of the first element that has a coordinate and
  whose key is \<open>k\<close>; the length of the list when there is none.\<close>

fun key_index :: "'f pylib \<Rightarrow> string \<Rightarrow> 'f element list \<Rightarrow> nat" where
  "key_index L k [] = 0"
| "key_index L k (e # es) =
     (case resolve L e of
        None \<Rightarrow> Suc (key_index L k es)
      | Some (a, b) \<Rightarrow>
          if f_fmt L 5 a @ '','' @ f_fmt L 5 b = k then 0 else Suc (key_index L k es))"

text \<open>
  A returned location is built from the first occurrence of its key: the element at
  that position has the location's coordinate, it passes the name filter, and the
  location is the record the loop builds from that element and from the distance of the
  coordinate to the origin.
\<close>

definition built_from_first ::
  "'f pylib \<Rightarrow> string \<Rightarrow> 'f \<Rightarrow> 'f \<Rightarrow> 'f element list \<Rightarrow> 'f location \<Rightarrow> bool" where
  "built_from_first L category lat lon es l =
     (let i = key_index L (loc_key L l) es
      in i < length es \<and>
         resolve L (es ! i) = Some (l_lat l, l_lon l) \<and>
         \<not> skip_unnamed (display_name (elem_tags (es ! i))) category \<and>
         calculate_distance L lat lon (l_lat l) (l_lon l) = Inr (l_distance l, l_distance_meters l) \<and>
         l = make_location category (elem_tags (es ! i)) (l_lat l) (l_lon l)
               (l_distance l) (l_distance_meters l))"

text \<open>
  The invariant of the loop. A run over \<open>es\<close> that starts with the keys \<open>seen\<close> adds
  entries whose keys are not in \<open>seen\<close>, each built from the first occurrence of its
  key in \<open>es\<close>, in the order of these occurrences.
\<close>

definition loop_adds ::
  "'f pylib \<Rightarrow> string \<Rightarrow> 'f \<Rightarrow> 'f \<Rightarrow> 'f element list \<Rightarrow> string set \<Rightarrow> 'f location list \<Rightarrow> bool" where
  "loop_adds L c la lo es seen new \<longleftrightarrow>
     (\<forall>l \<in> set new. loc_key L l \<notin> seen \<and> built_from_first L c la lo es l) \<and>
     sorted_wrt (\<lambda>x y. key_index L (loc_key L x) es < key_index L (loc_key L y) es) new"

text \<open>One clause of the Overpass query, for one kind of geometry.\<close>

definition around_clause :: "string \<Rightarrow> string \<Rightarrow> string \<Rightarrow> string \<Rightarrow> string \<Rightarrow> string" where
  "around_clause kind qf radius lat lon =
     kind @ ''['' @ qf @ ''](around:'' @ radius @ '','' @ lat @ '','' @ lon @ '');''"

section \<open>An exact-arithmetic instance of the library\<close>

text \<open>
  To run the model on concrete requests the library parameter needs a value. The
  instance below computes over the reals without rounding: \<open>int\<close> and \<open>float\<close> read
  plain decimal literals (an optional sign, digits, and for \<open>float\<close> an optional
  fraction), formatting rounds to the requested number of decimals, and the functions
  of \<open>math\<close> are the real functions, with \<open>sqrt\<close> raising on a negative argument. The
  general theorems below hold for every library; only the worked examples use this one.
\<close>

definition digit_of :: "char \<Rightarrow> nat option" where
  "digit_of c = map_of (zip ''0123456789'' [0, 1, 2, 3, 4, 5, 6, 7, 8, 9]) c"

fun digits_value :: "string \<Rightarrow> nat \<Rightarrow> nat option" where
  "digits_value [] acc = Some acc"
| "digits_value (c # cs) acc =
     (case digit_of c of None \<Rightarrow> None | Some d \<Rightarrow> digits_value cs (10 * acc + d))"

definition nat_literal :: "string \<Rightarrow> nat option" where
  "nat_literal s = (if s = [] then None else digits_value s 0)"

definition int_literal :: "string \<Rightarrow> string + int" where
  "int_literal s =
     (case (case s of
              [] \<Rightarrow> None
            | c # cs \<Rightarrow>
                if c = CHR ''-'' then map_option (\<lambda>n. - int n) (nat_literal cs)
                else if c = CHR ''+'' then map_option int (nat_literal cs)
                else map_option int (nat_literal s)) of
        None \<Rightarrow> Inl (''invalid literal for int() with base 10: '' @ sq @ s @ sq)
      | Some i \<Rightarrow> Inr i)"

definition decimal_literal :: "string \<Rightarrow> real option" where
  "decimal_literal s =
     (let neg = (s \<noteq> [] \<and> hd s = CHR ''-'');
          digits = (if neg then tl s else s);
          whole = takeWhile (\<lambda>c. c \<noteq> CHR ''.'') digits;
          rest = dropWhile (\<lambda>c. c \<noteq> CHR ''.'') digits;
          magnitude =
            (if rest = [] then map_option real (nat_literal whole)
             else (case (nat_literal whole, nat_literal (tl rest)) of
                     (Some a, Some b) \<Rightarrow> Some (real a + real b / 10 ^ length (tl rest))
                   | _ \<Rightarrow> None))
      in map_option (\<lambda>m. if neg then - m else m) magnitude)"

definition fixed_str :: "nat \<Rightarrow> real \<Rightarrow> string" where
  "fixed_str n x =
     (let scaled = \<lfloor>\<bar>x\<bar> * 10 ^ n + 1 / 2\<rfloor>;
          frac = str_nat (nat (scaled mod 10 ^ n))
      in (if x < 0 then ''-'' else []) @ str_int (scaled div 10 ^ n) @
         (if n = 0 then [] else ''.'' @ take (n - length frac) ''00000000000000000000'' @ frac))"

definition repr_real :: "real \<Rightarrow> string" where
  "repr_real x =
     (case find (\<lambda>n. x * 10 ^ n \<in> \<int>) [1, 2, 3, 4, 5, 6, 7, 8] of
        Some n \<Rightarrow> fixed_str n x
      | None \<Rightarrow> fixed_str 9 x)"

definition atan2_real :: "real \<Rightarrow> real \<Rightarrow> real" where
  "atan2_real y x =
     (if 0 < x then arctan (y / x)
      else if x < 0 then (if 0 \<le> y then arctan (y / x) + pi else arctan (y / x) - pi)
      else if 0 < y then pi / 2
      else if y < 0 then - pi / 2
      else 0)"

definition exact_lib :: "real pylib" where
  "exact_lib =
     \<lparr>f_int = int_literal,
      f_float = decimal_literal,
      f_of_int = real_of_int,
      f_is_zero = (\<lambda>x. x = 0),
      f_fmt = fixed_str,
      f_repr = repr_real,
      f_radians = (\<lambda>x. x * pi / 180),
      f_sin = (\<lambda>x. Inr (sin x)),
      f_cos = (\<lambda>x. Inr (cos x)),
      f_sqrt = (\<lambda>x. if x < 0 then Inl ''math domain error'' else Inr (sqrt x)),
      f_atan2 = atan2_real,
      f_add = (+),
      f_sub = (-),
      f_mul = (*),
      f_div = (/),
      f_pow = (\<lambda>x n. if 0 \<le> n then Inr (x ^ nat n)
                     else if x = 0 then Inl ''0.0 cannot be raised to a negative power''
                     else Inr (1 / x ^ nat (- n))),
      f_less = (<),
      f_trunc = (\<lambda>x. Inr (if 0 \<le> x then \<lfloor>x\<rfloor> else \<lceil>x\<rceil>))\<rparr>"

section \<open>Evaluation lemmas\<close>

lemma str_nat_numeral [simp]:
  "str_nat (numeral k) =
     (if (numeral k :: nat) < 10 then [''0123456789'' ! numeral k]
      else str_nat (numeral k div 10) @ [''0123456789'' ! (numeral k mod 10)])"
  by (rule str_nat.simps)

lemma str_nat_0 [simp]: "str_nat 0 = ''0''"
  by (simp add: str_nat.simps)

lemma str_nat_1 [simp]: "str_nat (Suc 0) = ''1''"
  by (simp add: str_nat.simps)

lemmas literal_defs = int_literal_def decimal_literal_def nat_literal_def digit_of_def

lemma exact_lib_sel [simp]:
  "f_int exact_lib = int_literal"
  "f_float exact_lib = decimal_literal"
  "f_is_zero exact_lib = (\<lambda>x. x = 0)"
  "f_fmt exact_lib = fixed_str"
  by (simp_all add: exact_lib_def)

section \<open>The stages of the handler\<close>

lemma search_calls:
  "snd (search L post category radius lat lon) =
     [outbound L category (min radius 20000) lat lon]"
  by (simp add: search_def Let_def min_def split: sum.splits)

lemma search_upstream_error:
  "post (outbound L category (min radius 20000) lat lon) = Inl e \<Longrightarrow>
     search L post category radius lat lon =
       (Inl e, [outbound L category (min radius 20000) lat lon])"
  by (cases "radius > 20000") (simp_all add: search_def Let_def min_def)

lemma peza_try_cases:
  obtains
    (bad_radius) msg where "radius_param L GET = Inl msg"
      and "peza_try L post GET = (Inl (OtherException msg), [])"
  | (missing) r where "radius_param L GET = Inr r"
      and "\<not> truthy (GET ''lat'') \<or> \<not> truthy (GET ''lon'')"
      and "peza_try L post GET =
             (Inr (bad_request ''Missing required parameters: lat and lon''), [])"
  | (invalid) r where "radius_param L GET = Inr r"
      and "truthy (GET ''lat'')" and "truthy (GET ''lon'')"
      and "f_float L (the (GET ''lat'')) = None \<or> f_float L (the (GET ''lon'')) = None"
      and "peza_try L post GET = (Inr (bad_request ''Invalid coordinates format''), [])"
  | (valid) r la lo where "radius_param L GET = Inr r"
      and "truthy (GET ''lat'')" and "truthy (GET ''lon'')"
      and "f_float L (the (GET ''lat'')) = Some la" and "f_float L (the (GET ''lon'')) = Some lo"
      and "peza_try L post GET = search L post (dict_get GET ''category'' ''all'') r la lo"
proof (cases "radius_param L GET")
  case (Inl msg)
  then show ?thesis using bad_radius by (simp add: peza_try_def)
next
  case (Inr r)
  show ?thesis
  proof (cases "\<not> truthy (GET ''lat'') \<or> \<not> truthy (GET ''lon'')")
    case True
    then show ?thesis using Inr missing [of r] by (simp add: peza_try_def)
  next
    case False
    show ?thesis
    proof (cases "f_float L (the (GET ''lat''))")
      case None
      then show ?thesis using Inr False invalid [of r] by (simp add: peza_try_def)
    next
      case la: (Some la)
      show ?thesis
      proof (cases "f_float L (the (GET ''lon''))")
        case None
        then show ?thesis using Inr False la invalid [of r] by (simp add: peza_try_def)
      next
        case (Some lo)
        then show ?thesis using Inr False la valid [of r la lo] by (simp add: peza_try_def)
      qed
    qed
  qed
qed

lemma peza_api_of_try:
  "peza_try L post GET = (Inr r, calls) \<Longrightarrow> peza_api L post GET = (r, calls)"
  "peza_try L post GET = (Inl (RequestException d), calls) \<Longrightarrow>
     peza_api L post GET =
       (\<lparr>status = 503,
         body = FailureBody ''Failed to fetch emergency services. Please try again.'' d\<rparr>, calls)"
  "peza_try L post GET = (Inl (OtherException d), calls) \<Longrightarrow>
     peza_api L post GET =
       (\<lparr>status = 500, body = FailureBody ''Internal server error'' d\<rparr>, calls)"
  by (simp_all add: peza_api_def)

lemma peza_api_calls:
  "snd (peza_api L post GET) = snd (peza_try L post GET)"
  by (simp add: peza_api_def split: prod.splits sum.splits exn.splits)

lemma search_success:
  assumes "search L post category radius lat lon = (Inr resp, calls)"
  obtains data collected where
    "post (outbound L category (min radius 20000) lat lon) = Inr data"
    "collect L category lat lon (payload_elements data) {} [] = Inr collected"
    "resp = \<lparr>status = 200,
             body = SuccessBody (length (take 20 (sort_key l_distance_meters collected)))
                      (take 20 (sort_key l_distance_meters collected))
                      \<lparr>sp_latitude = lat, sp_longitude = lon, sp_category = category,
                       sp_radius_meters = min radius 20000\<rparr>\<rparr>"
    "calls = [outbound L category (min radius 20000) lat lon]"
proof -
  have m: "(if radius > 20000 then 20000 else radius) = min radius 20000"
    by (simp add: min_def)
  show ?thesis
    using assms that unfolding search_def Let_def m
    by (auto split: sum.splits)
qed

lemma search_clamp:
  "20000 < radius \<Longrightarrow>
     search L post category radius lat lon = search L post category 20000 lat lon"
  by (simp add: search_def)

lemma radius_param_upd [simp]:
  "radius_param L (GET(''radius'' \<mapsto> s)) = f_int L s"
  by (simp add: radius_param_def)

lemma peza_api_success:
  assumes "fst (peza_api L post GET) = \<lparr>status = 200, body = SuccessBody n locs sp\<rparr>"
  obtains r la lo data collected where
    "radius_param L GET = Inr r"
    "truthy (GET ''lat'')" "truthy (GET ''lon'')"
    "f_float L (the (GET ''lat'')) = Some la" "f_float L (the (GET ''lon'')) = Some lo"
    "post (outbound L (dict_get GET ''category'' ''all'') (min r 20000) la lo) = Inr data"
    "collect L (dict_get GET ''category'' ''all'') la lo (payload_elements data) {} [] =
       Inr collected"
    "locs = take 20 (sort_key l_distance_meters collected)"
    "n = length locs"
    "sp = \<lparr>sp_latitude = la, sp_longitude = lo,
           sp_category = dict_get GET ''category'' ''all'',
           sp_radius_meters = min r 20000\<rparr>"
    "snd (peza_api L post GET) =
       [outbound L (dict_get GET ''category'' ''all'') (min r 20000) la lo]"
proof (cases rule: peza_try_cases [of L GET post])
  case (bad_radius msg)
  with assms show ?thesis by (simp add: peza_api_of_try)
next
  case (missing r)
  with assms show ?thesis by (simp add: peza_api_of_try bad_request_def)
next
  case (invalid r)
  with assms show ?thesis by (simp add: peza_api_of_try bad_request_def)
next
  case (valid r la lo)
  obtain res calls where s: "search L post (dict_get GET ''category'' ''all'') r la lo = (res, calls)"
    by (cases "search L post (dict_get GET ''category'' ''all'') r la lo")
  show ?thesis
  proof (cases res)
    case (Inl e)
    with s valid(6) assms show ?thesis
      by (cases e) (simp_all add: peza_api_of_try)
  next
    case (Inr resp)
    with s valid(6) have p: "peza_api L post GET = (resp, calls)"
      by (simp add: peza_api_of_try)
    from s Inr obtain data collected where
      d: "post (outbound L (dict_get GET ''category'' ''all'') (min r 20000) la lo) = Inr data"
        "collect L (dict_get GET ''category'' ''all'') la lo (payload_elements data) {} [] =
           Inr collected"
        "resp = \<lparr>status = 200,
             body = SuccessBody (length (take 20 (sort_key l_distance_meters collected)))
                      (take 20 (sort_key l_distance_meters collected))
                      \<lparr>sp_latitude = la, sp_longitude = lo,
                       sp_category = dict_get GET ''category'' ''all'',
                       sp_radius_meters = min r 20000\<rparr>\<rparr>"
        "calls = [outbound L (dict_get GET ''category'' ''all'') (min r 20000) la lo]"
      by (auto elim: search_success)
    show ?thesis
      using that [OF valid(1-5) d(1,2)] assms p d(3,4) by simp
  qed
qed

lemma truthy_dict_get: "truthy (tags k) \<longleftrightarrow> dict_get tags k [] \<noteq> []"
  by (simp add: truthy_def dict_get_def split: option.splits)

lemma the_dict_get: "truthy (tags k) \<Longrightarrow> the (tags k) = dict_get tags k []"
  by (simp add: truthy_def dict_get_def split: option.splits)

section \<open>\<open>format_address\<close>: the address label\<close>

text \<open>
  Claim C9, as the code has it. A tag counts only when its value is not empty. The
  street part is \<open>"{housenumber} {street}"\<close> when both count and the street alone when
  only the street counts. The city is the value of \<open>addr:city\<close> whenever that key
  exists, even with an empty value, and the value of \<open>addr:suburb\<close> only when the key
  \<open>addr:city\<close> is missing; it is appended, after \<open>", "\<close> when there is a street part,
  when it is not empty. Only when neither part exists is \<open>addr:place\<close> used, then
  \<open>location\<close>, and with nothing left the result is \<open>"Address not available"\<close>. The two
  examples of the specification follow.
\<close>

theorem format_address_cases:
  "format_address tags =
     (let street = dict_get tags ''addr:street'' [];
          housenumber = dict_get tags ''addr:housenumber'' [];
          city = dict_get tags ''addr:city'' (dict_get tags ''addr:suburb'' []);
          place = dict_get tags ''addr:place'' [];
          location = dict_get tags ''location'' [];
          street_part = (if housenumber \<noteq> [] then housenumber @ '' '' @ street else street)
      in if street \<noteq> [] \<and> city \<noteq> [] then street_part @ '', '' @ city
         else if street \<noteq> [] then street_part
         else if city \<noteq> [] then city
         else if place \<noteq> [] then place
         else if location \<noteq> [] then location
         else ''Address not available'')
   \<and> format_address [''addr:housenumber'' \<mapsto> ''12'', ''addr:street'' \<mapsto> ''Main St'',
                       ''addr:city'' \<mapsto> ''Lilongwe''] = ''12 Main St, Lilongwe''
   \<and> format_address Map.empty = ''Address not available''"
proof (intro conjI)
  show "format_address [''addr:housenumber'' \<mapsto> ''12'', ''addr:street'' \<mapsto> ''Main St'',
                        ''addr:city'' \<mapsto> ''Lilongwe''] = ''12 Main St, Lilongwe''"
    by (simp add: format_address_def dict_get_def truthy_def)
  show "format_address Map.empty = ''Address not available''"
    by (simp add: format_address_def dict_get_def truthy_def)
  show "format_address tags =
     (let street = dict_get tags ''addr:street'' [];
          housenumber = dict_get tags ''addr:housenumber'' [];
          city = dict_get tags ''addr:city'' (dict_get tags ''addr:suburb'' []);
          place = dict_get tags ''addr:place'' [];
          location = dict_get tags ''location'' [];
          street_part = (if housenumber \<noteq> [] then housenumber @ '' '' @ street else street)
      in if street \<noteq> [] \<and> city \<noteq> [] then street_part @ '', '' @ city
         else if street \<noteq> [] then street_part
         else if city \<noteq> [] then city
         else if place \<noteq> [] then place
         else if location \<noteq> [] then location
         else ''Address not available'')"
  proof -
    define street where "street = dict_get tags ''addr:street'' []"
    define housenumber where "housenumber = dict_get tags ''addr:housenumber'' []"
    define city where "city = dict_get tags ''addr:city'' (dict_get tags ''addr:suburb'' [])"
    define place where "place = dict_get tags ''addr:place'' []"
    define location where "location = dict_get tags ''location'' []"
    note defs = street_def [symmetric] housenumber_def [symmetric] city_def [symmetric]
      place_def [symmetric] location_def [symmetric]
    have p: "truthy (tags ''addr:place'') \<longleftrightarrow> place \<noteq> []"
      "truthy (tags ''location'') \<longleftrightarrow> location \<noteq> []"
      by (simp_all add: truthy_dict_get place_def location_def)
    have q: "place \<noteq> [] \<Longrightarrow> the (tags ''addr:place'') = place"
      "location \<noteq> [] \<Longrightarrow> the (tags ''location'') = location"
      using the_dict_get [of tags] p by (simp_all add: place_def location_def)
    show ?thesis
      unfolding format_address_def Let_def defs p
      by (cases "street = []"; cases "housenumber = []"; cases "city = []";
          cases "place = []"; cases "location = []"; simp add: q)
  qed
qed

text \<open>
  The claim as the specification words it fails on a mapping whose \<open>addr:city\<close> is the
  empty string: the suburb is there, but the empty city hides it, nothing is appended,
  and the label is the placeholder.
\<close>

theorem format_address_empty_city_counterexample:
  "format_address [''addr:city'' \<mapsto> [], ''addr:suburb'' \<mapsto> ''Area 3''] = ''Address not available''"
  by (simp add: format_address_def dict_get_def truthy_def)

section \<open>Validation of the query parameters\<close>

text \<open>
  Claim C10. A \<open>radius\<close> parameter that is present and that \<open>int\<close> rejects makes the
  view answer with status 500 and the envelope \<open>{success: false, error: "Internal server
  error", details}\<close>, the details being the message of the \<open>ValueError\<close>. The radius is
  converted before the coordinates are looked at, so this holds whatever \<open>lat\<close> and
  \<open>lon\<close> are (missing, malformed or valid), and no outbound call is made.
\<close>

theorem invalid_radius_internal_error:
  assumes "GET ''radius'' = Some s" and "f_int L s = Inl msg"
  shows "peza_api L post GET =
           (\<lparr>status = 500, body = FailureBody ''Internal server error'' msg\<rparr>, [])"
  using assms by (simp add: peza_api_def peza_try_def radius_param_def)

text \<open>The instance \<open>radius=abc\<close> with both coordinates missing.\<close>

theorem invalid_radius_internal_error_witness:
  "peza_api exact_lib (\<lambda>_. Inr \<lparr>p_elements = None\<rparr>) [''radius'' \<mapsto> ''abc''] =
     (\<lparr>status = 500,
       body = FailureBody ''Internal server error''
                (''invalid literal for int() with base 10: '' @ sq @ ''abc'' @ sq)\<rparr>, [])"
  using invalid_radius_internal_error
    [of "[''radius'' \<mapsto> ''abc'']" "''abc''" exact_lib
        "''invalid literal for int() with base 10: '' @ sq @ ''abc'' @ sq"
        "\<lambda>_. Inr \<lparr>p_elements = None\<rparr>"]
  by (simp add: literal_defs)

text \<open>
  Claim C7, for the requests on which the code does it. Let \<open>radius\<close> be absent or
  accepted by \<open>int\<close>. When \<open>lat\<close> or \<open>lon\<close> is missing or empty, the answer has status
  400 and the message \<open>"Missing required parameters: lat and lon"\<close>, whatever the other
  parameter is. When both are present and not empty and \<open>float\<close> rejects \<open>lat\<close> or
  \<open>lon\<close>, the answer has status 400 and the message \<open>"Invalid coordinates format"\<close>.
  So every request with a missing or malformed coordinate gets status 400 with one of
  the two messages, and in each case the list of outbound calls is empty.
\<close>

theorem invalid_coordinates_rejected:
  assumes "GET ''radius'' = None \<or> (\<exists>s r. GET ''radius'' = Some s \<and> f_int L s = Inr r)"
  shows "(\<not> truthy (GET ''lat'') \<or> \<not> truthy (GET ''lon'') \<longrightarrow>
            peza_api L post GET =
              (\<lparr>status = 400, body = ErrorBody ''Missing required parameters: lat and lon''\<rparr>, []))
       \<and> (truthy (GET ''lat'') \<and> truthy (GET ''lon'') \<and>
            (f_float L (the (GET ''lat'')) = None \<or> f_float L (the (GET ''lon'')) = None) \<longrightarrow>
            peza_api L post GET =
              (\<lparr>status = 400, body = ErrorBody ''Invalid coordinates format''\<rparr>, []))
       \<and> (GET ''lat'' = None \<or> GET ''lon'' = None \<or>
            f_float L (the (GET ''lat'')) = None \<or> f_float L (the (GET ''lon'')) = None \<longrightarrow>
            (\<exists>msg. peza_api L post GET = (\<lparr>status = 400, body = ErrorBody msg\<rparr>, []) \<and>
               (msg = ''Missing required parameters: lat and lon'' \<or>
                msg = ''Invalid coordinates format'')))"
proof -
  from assms obtain r0 where r0: "radius_param L GET = Inr r0"
    by (auto simp: radius_param_def)
  show ?thesis
  proof (cases rule: peza_try_cases [of L GET post])
    case (bad_radius msg)
    with r0 show ?thesis by simp
  next
    case (missing r)
    then show ?thesis by (auto simp: peza_api_of_try bad_request_def)
  next
    case (invalid r)
    then show ?thesis by (auto simp: peza_api_of_try bad_request_def)
  next
    case (valid r la lo)
    then show ?thesis by (auto simp: truthy_def)
  qed
qed

text \<open>
  Three instances: \<open>lat\<close> missing; \<open>lat=south\<close> with a valid radius; and \<open>lat=south\<close>
  with \<open>lon\<close> missing, which is answered as a missing parameter.
\<close>

theorem invalid_coordinates_rejected_witness:
  "peza_api exact_lib (\<lambda>_. Inr \<lparr>p_elements = None\<rparr>) [''lon'' \<mapsto> ''33.7741''] =
     (\<lparr>status = 400, body = ErrorBody ''Missing required parameters: lat and lon''\<rparr>, [])
   \<and> peza_api exact_lib (\<lambda>_. Inr \<lparr>p_elements = None\<rparr>)
        [''lat'' \<mapsto> ''south'', ''lon'' \<mapsto> ''33.7741'', ''radius'' \<mapsto> ''300''] =
     (\<lparr>status = 400, body = ErrorBody ''Invalid coordinates format''\<rparr>, [])
   \<and> peza_api exact_lib (\<lambda>_. Inr \<lparr>p_elements = None\<rparr>) [''lat'' \<mapsto> ''south''] =
     (\<lparr>status = 400, body = ErrorBody ''Missing required parameters: lat and lon''\<rparr>, [])"
  using invalid_coordinates_rejected
      [of "[''lon'' \<mapsto> ''33.7741'']" exact_lib "\<lambda>_. Inr \<lparr>p_elements = None\<rparr>"]
    invalid_coordinates_rejected
      [of "[''lat'' \<mapsto> ''south'', ''lon'' \<mapsto> ''33.7741'', ''radius'' \<mapsto> ''300'']" exact_lib
          "\<lambda>_. Inr \<lparr>p_elements = None\<rparr>"]
    invalid_coordinates_rejected
      [of "[''lat'' \<mapsto> ''south'']" exact_lib "\<lambda>_. Inr \<lparr>p_elements = None\<rparr>"]
  by (simp add: literal_defs truthy_def)

text \<open>
  Without the condition on \<open>radius\<close> the claim fails: with \<open>lat\<close> missing and
  \<open>radius=5km\<close> the answer is the internal error of status 500, not a client error.
\<close>

theorem missing_lat_invalid_radius_counterexample:
  "peza_api exact_lib (\<lambda>_. Inr \<lparr>p_elements = None\<rparr>)
     [''lon'' \<mapsto> ''33.7741'', ''radius'' \<mapsto> ''5km''] =
     (\<lparr>status = 500,
       body = FailureBody ''Internal server error''
                (''invalid literal for int() with base 10: '' @ sq @ ''5km'' @ sq)\<rparr>, [])"
  by (simp add: peza_api_def peza_try_def radius_param_def literal_defs)

section \<open>Failure of the outbound call\<close>

text \<open>
  Claim C8. When the view makes its outbound call and the call raises a
  \<open>RequestException\<close> (a timeout, a connection error, or the \<open>HTTPError\<close> of
  \<open>raise_for_status\<close>), the response has status 503 and the body
  \<open>{success: false, error, details}\<close> with \<open>str(e)\<close> as details; the body has no list of
  locations. The view returns a response in every case, and makes at most one call.
\<close>

theorem upstream_failure_unavailable:
  assumes "snd (peza_api L post GET) = [call]" and "post call = Inl (RequestException d)"
  shows "fst (peza_api L post GET) =
           \<lparr>status = 503,
            body = FailureBody ''Failed to fetch emergency services. Please try again.'' d\<rparr>
         \<and> length (snd (peza_api L post GET)) \<le> 1"
proof (cases rule: peza_try_cases [of L GET post])
  case (valid r la lo)
  with assms(1) have c: "call = outbound L (dict_get GET ''category'' ''all'') (min r 20000) la lo"
    by (simp add: peza_api_calls search_calls)
  show ?thesis
    using valid(6) assms(2) unfolding c
    by (simp add: search_upstream_error peza_api_of_try)
qed (use assms(1) in \<open>simp_all add: peza_api_calls\<close>)

text \<open>The instance of a read timeout.\<close>

theorem upstream_failure_unavailable_witness:
  "fst (peza_api exact_lib (\<lambda>_. Inl (RequestException ''Read timed out''))
          [''lat'' \<mapsto> ''1'', ''lon'' \<mapsto> ''2'']) =
     \<lparr>status = 503,
      body = FailureBody ''Failed to fetch emergency services. Please try again.''
               ''Read timed out''\<rparr>"
  using upstream_failure_unavailable
    [of exact_lib "\<lambda>_. Inl (RequestException ''Read timed out'')"
        "[''lat'' \<mapsto> ''1'', ''lon'' \<mapsto> ''2'']" "outbound exact_lib ''all'' 5000 1 2"
        "''Read timed out''"]
  by (simp add: peza_api_def peza_try_def search_def radius_param_def literal_defs truthy_def
        dict_get_def)

section \<open>The radius\<close>

text \<open>
  Claim C6, as the code has it. On a successful request the radius echoed in
  \<open>search_params.radius_meters\<close> is the smaller of the requested radius and 20000, hence
  at most 20000; the requested radius is 5000 when the parameter is absent; the echoed
  radius is the one the outbound query was built with; and a radius above 20000 is
  clamped, not rejected: the request is answered exactly as the same request with a
  radius of 20000. The code sets no lower bound.
\<close>

theorem radius_clamped:
  assumes "fst (peza_api L post GET) = \<lparr>status = 200, body = SuccessBody n locs sp\<rparr>"
  shows "(\<exists>r. radius_param L GET = Inr r \<and> sp_radius_meters sp = min r 20000)
       \<and> sp_radius_meters sp \<le> 20000
       \<and> (GET ''radius'' = None \<longrightarrow> sp_radius_meters sp = 5000)
       \<and> snd (peza_api L post GET) =
           [outbound L (sp_category sp) (sp_radius_meters sp) (sp_latitude sp) (sp_longitude sp)]
       \<and> (\<forall>GET' s s' r'. f_int L s = Inr r' \<and> 20000 < r' \<and> f_int L s' = Inr 20000 \<longrightarrow>
             peza_api L post (GET'(''radius'' \<mapsto> s)) = peza_api L post (GET'(''radius'' \<mapsto> s')))"
proof (intro conjI)
  from assms obtain r la lo where
    r: "radius_param L GET = Inr r"
    and sp: "sp = \<lparr>sp_latitude = la, sp_longitude = lo,
           sp_category = dict_get GET ''category'' ''all'',
           sp_radius_meters = min r 20000\<rparr>"
    and calls: "snd (peza_api L post GET) =
       [outbound L (dict_get GET ''category'' ''all'') (min r 20000) la lo]"
    by (auto elim: peza_api_success)
  show "\<exists>r. radius_param L GET = Inr r \<and> sp_radius_meters sp = min r 20000"
    using r sp by simp
  show "sp_radius_meters sp \<le> 20000"
    using sp by simp
  show "GET ''radius'' = None \<longrightarrow> sp_radius_meters sp = 5000"
    using r sp by (auto simp: radius_param_def)
  show "snd (peza_api L post GET) =
           [outbound L (sp_category sp) (sp_radius_meters sp) (sp_latitude sp) (sp_longitude sp)]"
    using calls sp by simp
  show "\<forall>GET' s s' r'. f_int L s = Inr r' \<and> 20000 < r' \<and> f_int L s' = Inr 20000 \<longrightarrow>
             peza_api L post (GET'(''radius'' \<mapsto> s)) = peza_api L post (GET'(''radius'' \<mapsto> s'))"
  proof (intro allI impI)
    fix GET' s s' r'
    assume a: "f_int L s = Inr r' \<and> 20000 < r' \<and> f_int L s' = Inr 20000"
    then have "peza_try L post (GET'(''radius'' \<mapsto> s)) =
                 peza_try L post (GET'(''radius'' \<mapsto> s'))"
      by (auto simp: peza_try_def Let_def dict_get_def search_clamp [of r'] split: option.splits)
    then show "peza_api L post (GET'(''radius'' \<mapsto> s)) =
                 peza_api L post (GET'(''radius'' \<mapsto> s'))"
      by (simp add: peza_api_def)
  qed
qed

text \<open>The instance \<open>radius=50000\<close>: the echoed radius is 20000.\<close>

theorem radius_clamped_witness:
  "sp_radius_meters
     \<lparr>sp_latitude = 1, sp_longitude = 2, sp_category = ''all'', sp_radius_meters = 20000\<rparr>
     \<le> (20000 :: int)
   \<and> fst (peza_api exact_lib (\<lambda>_. Inr \<lparr>p_elements = Some []\<rparr>)
          [''lat'' \<mapsto> ''1'', ''lon'' \<mapsto> ''2'', ''radius'' \<mapsto> ''50000'']) =
       \<lparr>status = 200,
        body = SuccessBody 0 []
          \<lparr>sp_latitude = 1, sp_longitude = 2, sp_category = ''all'', sp_radius_meters = 20000\<rparr>\<rparr>"
proof -
  have e: "fst (peza_api exact_lib (\<lambda>_. Inr \<lparr>p_elements = Some []\<rparr>)
          [''lat'' \<mapsto> ''1'', ''lon'' \<mapsto> ''2'', ''radius'' \<mapsto> ''50000'']) =
       \<lparr>status = 200,
        body = SuccessBody 0 []
          \<lparr>sp_latitude = 1, sp_longitude = 2, sp_category = ''all'', sp_radius_meters = 20000\<rparr>\<rparr>"
    by (simp add: peza_api_def peza_try_def search_def radius_param_def literal_defs truthy_def
          dict_get_def payload_elements_def)
  from radius_clamped [OF e] e show ?thesis by simp
qed

text \<open>
  The lower bound of the claim fails: \<open>radius=-5\<close> is accepted, the query is built with
  the radius \<open>-5\<close>, and \<open>-5\<close> is echoed.
\<close>

theorem negative_radius_counterexample:
  "peza_api exact_lib (\<lambda>_. Inr \<lparr>p_elements = Some []\<rparr>)
          [''lat'' \<mapsto> ''1'', ''lon'' \<mapsto> ''2'', ''radius'' \<mapsto> ''-5''] =
       (\<lparr>status = 200,
         body = SuccessBody 0 []
           \<lparr>sp_latitude = 1, sp_longitude = 2, sp_category = ''all'', sp_radius_meters = - 5\<rparr>\<rparr>,
        [outbound exact_lib ''all'' (- 5) 1 2])"
  by (simp add: peza_api_def peza_try_def search_def radius_param_def literal_defs truthy_def
        dict_get_def payload_elements_def)

section \<open>The query\<close>

text \<open>
  Claim C5. The tag filter follows the fixed table, with \<open>amenity=hospital\<close> for every
  category outside it. The body of the outbound request is the query text: the header
  with the execution timeout 15, one \<open>around\<close> clause for each of \<open>node\<close>, \<open>way\<close> and
  \<open>relation\<close> with the same filter, radius and coordinates, and the output statement
  \<open>out center tags\<close>. The request carries the transport timeout 20. Building cannot
  fail: whenever the parameters pass validation, the view makes exactly this call.
\<close>

theorem query_building:
  "query_filter ''police'' = ''amenity=police''
   \<and> query_filter ''hospital'' = ''amenity=hospital''
   \<and> query_filter ''ambulance'' = ''amenity~'' @ dq @ ''hospital|clinic|doctors'' @ dq
   \<and> query_filter ''fire'' = ''amenity=fire_station''
   \<and> query_filter ''pharmacy'' = ''amenity=pharmacy''
   \<and> query_filter ''utility'' = ''office~'' @ dq @ ''company|government'' @ dq
   \<and> query_filter ''all'' = ''amenity~'' @ dq @ ''police|hospital|fire_station|clinic'' @ dq
   \<and> (category \<notin> {''police'', ''hospital'', ''ambulance'', ''fire'', ''pharmacy'', ''utility'',
                     ''all''} \<longrightarrow>
        query_filter category = ''amenity=hospital'')
   \<and> h_data (outbound L category radius lat lon) =
        concat (map (\<lambda>line. line @ nl)
          ([[], ''            [out:json][timeout:15];'', ''            (''] @
           map (\<lambda>kind. ''                '' @
                  around_clause kind (query_filter category) (str_int radius)
                    (f_repr L lat) (f_repr L lon))
             [''node'', ''way'', ''relation''] @
           [''            );'', ''            out center tags;''])) @ ''        ''
   \<and> h_timeout (outbound L category radius lat lon) = 20
   \<and> (radius_param L GET = Inr r \<and> truthy (GET ''lat'') \<and> truthy (GET ''lon'') \<and>
        f_float L (the (GET ''lat'')) = Some lat \<and> f_float L (the (GET ''lon'')) = Some lon \<longrightarrow>
        snd (peza_api L post GET) =
          [outbound L (dict_get GET ''category'' ''all'') (min r 20000) lat lon])"
proof (intro conjI)
  show "category \<notin> {''police'', ''hospital'', ''ambulance'', ''fire'', ''pharmacy'', ''utility'',
                     ''all''} \<longrightarrow>
        query_filter category = ''amenity=hospital''"
    by (simp add: query_filter_def category_map_def dict_get_def)
  show "h_data (outbound L category radius lat lon) =
        concat (map (\<lambda>line. line @ nl)
          ([[], ''            [out:json][timeout:15];'', ''            (''] @
           map (\<lambda>kind. ''                '' @
                  around_clause kind (query_filter category) (str_int radius)
                    (f_repr L lat) (f_repr L lon))
             [''node'', ''way'', ''relation''] @
           [''            );'', ''            out center tags;''])) @ ''        ''"
    by (simp add: outbound_def overpass_query_def around_clause_def)
  show "radius_param L GET = Inr r \<and> truthy (GET ''lat'') \<and> truthy (GET ''lon'') \<and>
        f_float L (the (GET ''lat'')) = Some lat \<and> f_float L (the (GET ''lon'')) = Some lon \<longrightarrow>
        snd (peza_api L post GET) =
          [outbound L (dict_get GET ''category'' ''all'') (min r 20000) lat lon]"
    by (simp add: peza_api_calls peza_try_def search_calls)
qed (simp_all add: query_filter_def category_map_def dict_get_def outbound_def)

text \<open>The instance of the unrecognised category \<open>dentist\<close>.\<close>

theorem query_building_witness:
  "query_filter ''dentist'' = ''amenity=hospital''
   \<and> snd (peza_api exact_lib (\<lambda>_. Inr \<lparr>p_elements = None\<rparr>)
            [''lat'' \<mapsto> ''1'', ''lon'' \<mapsto> ''2'', ''category'' \<mapsto> ''dentist'']) =
       [outbound exact_lib ''dentist'' 5000 1 2]"
  using query_building [of "''dentist''" exact_lib 5000 1 2
      "[''lat'' \<mapsto> ''1'', ''lon'' \<mapsto> ''2'', ''category'' \<mapsto> ''dentist'']" 5000
      "\<lambda>_. Inr \<lparr>p_elements = None\<rparr>"]
  by (simp add: radius_param_def literal_defs truthy_def dict_get_def)

section \<open>The loop over the elements\<close>

lemma make_location_sel [simp]:
  "l_lat (make_location c t a b d m) = a"
  "l_lon (make_location c t a b d m) = b"
  "l_distance (make_location c t a b d m) = d"
  "l_distance_meters (make_location c t a b d m) = m"
  "l_name (make_location c t a b d m) = display_name t"
  by (simp_all add: make_location_def)

lemma loc_key_coord: "loc_key L l = coord_key L (l_lat l) (l_lon l)"
  by (simp add: loc_key_def coord_key_def)

lemma loc_key_make_location [simp]:
  "loc_key L (make_location c t a b d m) = coord_key L a b"
  by (simp add: loc_key_coord)

lemma key_index_Cons [simp]:
  "key_index L k (e # es) =
     (case resolve L e of
        None \<Rightarrow> Suc (key_index L k es)
      | Some (a, b) \<Rightarrow> if coord_key L a b = k then 0 else Suc (key_index L k es))"
  by (auto simp: coord_key_def split: option.splits)

declare key_index.simps(2) [simp del]

lemma key_index_miss:
  assumes "\<And>a b. resolve L e = Some (a, b) \<Longrightarrow> coord_key L a b \<noteq> k"
  shows "key_index L k (e # es) = Suc (key_index L k es)"
  using assms by (auto split: option.splits)

lemma built_from_first_miss:
  assumes "\<And>a b. resolve L e = Some (a, b) \<Longrightarrow> coord_key L a b \<noteq> loc_key L l"
    and "built_from_first L c la lo es l"
  shows "built_from_first L c la lo (e # es) l"
  using assms(2) key_index_miss [of L e "loc_key L l" es, OF assms(1)]
  by (simp add: built_from_first_def Let_def)

lemma built_from_first_hit:
  assumes "resolve L e = Some (a, b)" and "calculate_distance L la lo a b = Inr (d, m)"
    and "\<not> skip_unnamed (display_name (elem_tags e)) c"
  shows "built_from_first L c la lo (e # es) (make_location c (elem_tags e) a b d m)"
  using assms by (simp add: built_from_first_def Let_def)

lemma loop_adds_miss:
  assumes adds: "loop_adds L c la lo es seen' new"
    and sub: "seen \<subseteq> seen'"
    and miss: "\<And>a b. resolve L e = Some (a, b) \<Longrightarrow> coord_key L a b \<in> seen'"
  shows "loop_adds L c la lo (e # es) seen new"
proof -
  have k: "key_index L (loc_key L l) (e # es) = Suc (key_index L (loc_key L l) es)"
    if "l \<in> set new" for l
    using that adds miss by (intro key_index_miss) (auto simp: loop_adds_def)
  have b: "built_from_first L c la lo (e # es) l" if "l \<in> set new" for l
    using that adds miss by (intro built_from_first_miss) (auto simp: loop_adds_def)
  have "sorted_wrt (\<lambda>x y. key_index L (loc_key L x) es < key_index L (loc_key L y) es) new"
    using adds by (simp add: loop_adds_def)
  then have "sorted_wrt (\<lambda>x y. key_index L (loc_key L x) (e # es)
                             < key_index L (loc_key L y) (e # es)) new"
    by (rule sorted_wrt_mono_rel [rotated]) (simp only: k Suc_less_eq)
  with b adds sub show ?thesis
    by (auto simp: loop_adds_def simp del: key_index_Cons)
qed

lemma loop_adds_hit:
  assumes adds: "loop_adds L c la lo es (insert (coord_key L a b) seen) new"
    and res: "resolve L e = Some (a, b)"
    and fresh: "coord_key L a b \<notin> seen"
    and dist: "calculate_distance L la lo a b = Inr (d, m)"
    and keep: "\<not> skip_unnamed (display_name (elem_tags e)) c"
  shows "loop_adds L c la lo (e # es) seen (make_location c (elem_tags e) a b d m # new)"
proof -
  have miss: "loop_adds L c la lo (e # es) seen new"
    using adds res by (intro loop_adds_miss [where seen' = "insert (coord_key L a b) seen"]) auto
  have k: "key_index L (loc_key L l) (e # es) = Suc (key_index L (loc_key L l) es)"
    if "l \<in> set new" for l
    using that adds res by (intro key_index_miss) (auto simp: loop_adds_def)
  have z: "key_index L (coord_key L a b) (e # es) = 0"
    using res by simp
  show ?thesis
    using k miss fresh built_from_first_hit [OF res dist keep, of es]
    by (auto simp: loop_adds_def z simp del: key_index_Cons)
qed

lemma collect_adds:
  assumes "collect L c la lo es seen locs = Inr out"
  shows "\<exists>new. out = locs @ new \<and> loop_adds L c la lo es seen new"
  using assms
proof (induction es arbitrary: seen locs)
  case Nil
  then show ?case by (simp add: loop_adds_def)
next
  case (Cons e es)
  show ?case
  proof (cases "resolve L e")
    case None
    with Cons.prems have "collect L c la lo es seen locs = Inr out" by simp
    from Cons.IH [OF this] obtain new where
      n: "out = locs @ new" "loop_adds L c la lo es seen new" by blast
    from n(2) have "loop_adds L c la lo (e # es) seen new"
      using None by (intro loop_adds_miss [where seen' = seen]) auto
    with n(1) show ?thesis by blast
  next
    case (Some p)
    obtain a b where p: "p = (a, b)" by (cases p)
    note res = Some [unfolded p]
    show ?thesis
    proof (cases "coord_key L a b \<in> seen")
      case True
      with Cons.prems res have "collect L c la lo es seen locs = Inr out" by simp
      from Cons.IH [OF this] obtain new where
        n: "out = locs @ new" "loop_adds L c la lo es seen new" by blast
      from n(2) have "loop_adds L c la lo (e # es) seen new"
        using res True by (intro loop_adds_miss [where seen' = seen]) auto
      with n(1) show ?thesis by blast
    next
      case fresh: False
      show ?thesis
      proof (cases "skip_unnamed (display_name (elem_tags e)) c")
        case True
        with Cons.prems res fresh
        have "collect L c la lo es (insert (coord_key L a b) seen) locs = Inr out" by simp
        from Cons.IH [OF this] obtain new where
          n: "out = locs @ new" "loop_adds L c la lo es (insert (coord_key L a b) seen) new"
          by blast
        from n(2) have "loop_adds L c la lo (e # es) seen new"
          using res by (intro loop_adds_miss [where seen' = "insert (coord_key L a b) seen"]) auto
        with n(1) show ?thesis by blast
      next
        case keep: False
        show ?thesis
        proof (cases "calculate_distance L la lo a b")
          case (Inl err)
          with Cons.prems res fresh keep show ?thesis by simp
        next
          case (Inr dm)
          obtain d m where dm: "dm = (d, m)" by (cases dm)
          note dist = Inr [unfolded dm]
          from Cons.prems res fresh keep dist
          have "collect L c la lo es (insert (coord_key L a b) seen)
                  (locs @ [make_location c (elem_tags e) a b d m]) = Inr out" by simp
          from Cons.IH [OF this] obtain new where
            n: "out = (locs @ [make_location c (elem_tags e) a b d m]) @ new"
               "loop_adds L c la lo es (insert (coord_key L a b) seen) new"
            by blast
          from loop_adds_hit [OF n(2) res fresh dist keep] n(1) show ?thesis by simp
        qed
      qed
    qed
  qed
qed


lemma collect_keeps:
  assumes "collect L c la lo es seen locs = Inr out"
  shows "set locs \<subseteq> set out"
  using collect_adds [OF assms] by auto

lemma collect_complete:
  assumes "collect L c la lo es seen locs = Inr out"
    and "i < length es"
    and "resolve L (es ! i) = Some (a, b)"
    and "key_index L (coord_key L a b) es = i"
    and "coord_key L a b \<notin> seen"
    and "\<not> skip_unnamed (display_name (elem_tags (es ! i))) c"
  shows "\<exists>d m. calculate_distance L la lo a b = Inr (d, m) \<and>
           make_location c (elem_tags (es ! i)) a b d m \<in> set out"
  using assms
proof (induction es arbitrary: seen locs i)
  case Nil
  then show ?case by simp
next
  case (Cons e es)
  show ?case
  proof (cases i)
    case 0
    with Cons.prems have res: "resolve L e = Some (a, b)"
      and keep: "\<not> skip_unnamed (display_name (elem_tags e)) c" by simp_all
    show ?thesis
    proof (cases "calculate_distance L la lo a b")
      case (Inl err)
      with Cons.prems(1,5) res keep show ?thesis by simp
    next
      case (Inr dm)
      obtain d m where dm: "dm = (d, m)" by (cases dm)
      from Cons.prems(1,5) res keep Inr dm
      have "collect L c la lo es (insert (coord_key L a b) seen)
              (locs @ [make_location c (elem_tags e) a b d m]) = Inr out" by simp
      from collect_keeps [OF this] Inr dm 0 show ?thesis by auto
    qed
  next
    case (Suc j)
    with Cons.prems have j: "j < length es" "resolve L (es ! j) = Some (a, b)"
      "\<not> skip_unnamed (display_name (elem_tags (es ! j))) c" by simp_all
    from Cons.prems(4) Suc have miss: "\<And>x y. resolve L e = Some (x, y) \<Longrightarrow>
        coord_key L x y \<noteq> coord_key L a b"
      by (auto split: option.splits if_splits)
    from Cons.prems(4) Suc have kj: "key_index L (coord_key L a b) es = j"
      by (auto split: option.splits if_splits)
    obtain seen' locs' where
      step: "collect L c la lo es seen' locs' = Inr out" and fresh: "coord_key L a b \<notin> seen'"
    proof (cases "resolve L e")
      case None
      with Cons.prems(1,5) that show ?thesis by simp
    next
      case (Some p)
      obtain x y where p: "p = (x, y)" by (cases p)
      from miss Some p have ne: "coord_key L x y \<noteq> coord_key L a b" by simp
      show ?thesis
      proof (cases "coord_key L x y \<in> seen")
        case True
        with Cons.prems(1,5) Some p that show ?thesis by simp
      next
        case False
        show ?thesis
        proof (cases "skip_unnamed (display_name (elem_tags e)) c")
          case True
          with Cons.prems(1,5) Some p False ne
            that [of "insert (coord_key L x y) seen" locs] show ?thesis by simp
        next
          case keep: False
          show ?thesis
          proof (cases "calculate_distance L la lo x y")
            case (Inl err)
            with Cons.prems(1) Some p False keep show ?thesis by simp
          next
            case (Inr dm)
            obtain d m where "dm = (d, m)" by (cases dm)
            with Cons.prems(1,5) Some p False keep Inr ne
              that [of "insert (coord_key L x y) seen"
                       "locs @ [make_location c (elem_tags e) x y d m]"]
            show ?thesis by simp
          qed
        qed
      qed
    qed
    from Cons.IH [OF step j(1,2) kj fresh j(3)] Suc show ?thesis by simp
  qed
qed

lemma loop_adds_distinct:
  assumes "loop_adds L c la lo es seen new"
  shows "distinct (map (loc_key L) new)"
proof -
  have "sorted_wrt (\<lambda>x y. key_index L (loc_key L x) es < key_index L (loc_key L y) es) new"
    using assms by (simp add: loop_adds_def)
  then have "sorted_wrt (\<lambda>x y. loc_key L x \<noteq> loc_key L y) new"
    by (rule sorted_wrt_mono_rel [rotated]) auto
  then show ?thesis
    by (induction new) auto
qed

text \<open>Insertion into a list in which ties are in encounter order keeps them so, when
  the inserted entry comes before all of them.\<close>

lemma insort_key_ties:
  assumes "sorted_wrt (\<lambda>x y. f x = f y \<longrightarrow> p x < p y) ys" and "\<forall>y \<in> set ys. p x < p y"
  shows "sorted_wrt (\<lambda>x y. f x = f y \<longrightarrow> p x < p y) (insort_key f x ys)"
  using assms
proof (induction ys)
  case Nil
  then show ?case by simp
next
  case (Cons y ys)
  show ?case
  proof (cases "f x \<le> f y")
    case True
    with Cons.prems show ?thesis by simp
  next
    case False
    then have "insort_key f x (y # ys) = y # insort_key f x ys" by simp
    moreover have "sorted_wrt (\<lambda>x y. f x = f y \<longrightarrow> p x < p y) (insort_key f x ys)"
      using Cons by simp
    moreover have "\<forall>z \<in> set (insort_key f x ys). f y = f z \<longrightarrow> p y < p z"
      using Cons.prems False by (auto simp: set_insort_key)
    ultimately show ?thesis by simp
  qed
qed

lemma sort_key_ties:
  fixes f :: "'a \<Rightarrow> int"
  assumes "sorted_wrt (\<lambda>x y. p x < (p y :: nat)) xs"
  shows "sorted_wrt (\<lambda>x y. f x = f y \<longrightarrow> p x < p y) (sort_key f xs)"
  using assms
proof (induction xs)
  case Nil
  then show ?case by simp
next
  case (Cons x xs)
  then have "sorted_wrt (\<lambda>x y. f x = f y \<longrightarrow> p x < p y) (sort_key f xs)"
    and "\<forall>y \<in> set (sort_key f xs). p x < p y"
    by simp_all
  then show ?case
    by (simp add: insort_key_ties)
qed

lemmas request_defs = peza_api_def peza_try_def search_def radius_param_def truthy_def
  dict_get_def payload_elements_def literal_defs

lemmas element_defs = resolve_def elem_lat_def elem_lon_def py_or_def falsy_def coord_key_def
  fixed_str_def str_int_def elem_tags_def display_name_def skip_unnamed_def

lemma exact_distance_zero:
  "calculate_distance exact_lib x y x y = Inr (''0 m'', 0)"
  by (simp add: calculate_distance_def exact_lib_def and_then_def atan2_real_def str_int_def)

section \<open>The ranked list\<close>

text \<open>
  Claim C2, as the code has it. On every successful request the returned list is
  ascending in \<open>distance_meters\<close>, has at most 20 entries (and \<open>count\<close> is its length),
  and no two entries have the same key, the key being the latitude and the longitude
  formatted with five decimals and joined by a comma. Of several elements with one key
  only the first in encounter order can be kept: every entry is built from the first
  element that has a coordinate with the entry's key, and that element passes the name
  filter; conversely the first element with a key has its entry in the list when it
  passes the name filter and the list was not cut at 20. The sort is stable: two entries
  with equal \<open>distance_meters\<close> appear in the order in which their elements were
  encountered.
\<close>

theorem ranked_locations:
  assumes "fst (peza_api L post GET) = \<lparr>status = 200, body = SuccessBody n locs sp\<rparr>"
  shows "sorted (map l_distance_meters locs)
       \<and> length locs \<le> 20
       \<and> n = length locs
       \<and> distinct (map (\<lambda>l. f_fmt L 5 (l_lat l) @ '','' @ f_fmt L 5 (l_lon l)) locs)
       \<and> (\<exists>call data.
             snd (peza_api L post GET) = [call] \<and> post call = Inr data \<and>
             (\<forall>l \<in> set locs.
                built_from_first L (sp_category sp) (sp_latitude sp) (sp_longitude sp)
                  (payload_elements data) l) \<and>
             sorted_wrt
               (\<lambda>x y. l_distance_meters x = l_distance_meters y \<longrightarrow>
                   key_index L (loc_key L x) (payload_elements data)
                     < key_index L (loc_key L y) (payload_elements data))
               locs \<and>
             (\<forall>i a b.
                i < length (payload_elements data) \<and>
                resolve L (payload_elements data ! i) = Some (a, b) \<and>
                key_index L (f_fmt L 5 a @ '','' @ f_fmt L 5 b) (payload_elements data) = i \<and>
                \<not> skip_unnamed (display_name (elem_tags (payload_elements data ! i)))
                     (sp_category sp) \<and>
                n < 20 \<longrightarrow>
                (\<exists>d m. calculate_distance L (sp_latitude sp) (sp_longitude sp) a b = Inr (d, m) \<and>
                   make_location (sp_category sp) (elem_tags (payload_elements data ! i)) a b d m
                     \<in> set locs)))"
proof -
  from assms obtain r la lo data collected where
    post: "post (outbound L (dict_get GET ''category'' ''all'') (min r 20000) la lo) = Inr data"
    and coll: "collect L (dict_get GET ''category'' ''all'') la lo (payload_elements data) {} [] =
       Inr collected"
    and locs: "locs = take 20 (sort_key l_distance_meters collected)"
    and n: "n = length locs"
    and sp: "sp = \<lparr>sp_latitude = la, sp_longitude = lo,
           sp_category = dict_get GET ''category'' ''all'',
           sp_radius_meters = min r 20000\<rparr>"
    and calls: "snd (peza_api L post GET) =
       [outbound L (dict_get GET ''category'' ''all'') (min r 20000) la lo]"
    by (auto elim: peza_api_success)
  let ?c = "dict_get GET ''category'' ''all''"
  let ?es = "payload_elements data"
  from collect_adds [OF coll]
  have adds: "loop_adds L ?c la lo ?es {} collected" by simp
  have sub: "set locs \<subseteq> set collected"
    unfolding locs using set_take_subset [of 20 "sort_key l_distance_meters collected"] by simp
  have "sorted (take 20 (map l_distance_meters (sort_key l_distance_meters collected)))"
    by (intro sorted_wrt_take) simp
  then have s1: "sorted (map l_distance_meters locs)"
    by (simp add: locs take_map)
  have s2: "length locs \<le> 20"
    unfolding locs by simp
  have "distinct (map (loc_key L) (sort_key l_distance_meters collected))"
    using loop_adds_distinct [OF adds] by (simp add: distinct_map)
  then have "distinct (take 20 (map (loc_key L) (sort_key l_distance_meters collected)))"
    by (rule distinct_take)
  then have "distinct (map (loc_key L) locs)"
    by (simp add: locs take_map)
  moreover have "loc_key L = (\<lambda>l. f_fmt L 5 (l_lat l) @ '','' @ f_fmt L 5 (l_lon l))"
    by (simp add: loc_key_def fun_eq_iff)
  ultimately have s3: "distinct (map (\<lambda>l. f_fmt L 5 (l_lat l) @ '','' @ f_fmt L 5 (l_lon l)) locs)"
    by simp
  have s4: "\<forall>l \<in> set locs. built_from_first L ?c la lo ?es l"
    using adds sub by (auto simp: loop_adds_def)
  have "sorted_wrt (\<lambda>x y. l_distance_meters x = l_distance_meters y \<longrightarrow>
           key_index L (loc_key L x) ?es < key_index L (loc_key L y) ?es)
          (sort_key l_distance_meters collected)"
    using adds by (intro sort_key_ties) (simp add: loop_adds_def)
  then have s5: "sorted_wrt (\<lambda>x y. l_distance_meters x = l_distance_meters y \<longrightarrow>
           key_index L (loc_key L x) ?es < key_index L (loc_key L y) ?es) locs"
    unfolding locs by (rule sorted_wrt_take)
  have s6: "\<exists>d m. calculate_distance L la lo a b = Inr (d, m) \<and>
              make_location ?c (elem_tags (?es ! i)) a b d m \<in> set locs"
    if "i < length ?es" "resolve L (?es ! i) = Some (a, b)"
      "key_index L (f_fmt L 5 a @ '','' @ f_fmt L 5 b) ?es = i"
      "\<not> skip_unnamed (display_name (elem_tags (?es ! i))) ?c" "n < 20"
    for i a b
  proof -
    from that(5) n locs have "length collected < 20" by simp
    then have "set locs = set collected"
      by (simp add: locs)
    moreover from that(3) have "key_index L (coord_key L a b) ?es = i"
      by (simp add: coord_key_def)
    ultimately show ?thesis
      using collect_complete [OF coll that(1,2) _ _ that(4)] by simp
  qed
  show ?thesis
    using s1 s2 n s3 s4 s5 s6 calls post unfolding sp by simp
qed


text \<open>
  An instance: a node and, after it, a way whose centre has the same coordinate. The
  node is returned, built from position 0 of the answer; the way is dropped as a
  duplicate.
\<close>

theorem ranked_locations_witness:
  "fst (peza_api exact_lib
         (\<lambda>_. Inr \<lparr>p_elements = Some
            [\<lparr>e_lat = Some 1, e_lon = Some 2, e_center = None,
              e_tags = Some [''name'' \<mapsto> ''Clinic A'']\<rparr>,
             \<lparr>e_lat = None, e_lon = None, e_center = Some \<lparr>c_lat = Some 1, c_lon = Some 2\<rparr>,
              e_tags = Some [''name'' \<mapsto> ''Clinic B'']\<rparr>]\<rparr>)
         [''lat'' \<mapsto> ''1'', ''lon'' \<mapsto> ''2'', ''category'' \<mapsto> ''hospital'']) =
     \<lparr>status = 200,
      body = SuccessBody 1
        [make_location ''hospital'' [''name'' \<mapsto> ''Clinic A''] 1 2 ''0 m'' 0]
        \<lparr>sp_latitude = 1, sp_longitude = 2, sp_category = ''hospital'',
         sp_radius_meters = 5000\<rparr>\<rparr>
   \<and> built_from_first exact_lib ''hospital'' 1 2
        [\<lparr>e_lat = Some 1, e_lon = Some 2, e_center = None,
          e_tags = Some [''name'' \<mapsto> ''Clinic A'']\<rparr>,
         \<lparr>e_lat = None, e_lon = None, e_center = Some \<lparr>c_lat = Some 1, c_lon = Some 2\<rparr>,
          e_tags = Some [''name'' \<mapsto> ''Clinic B'']\<rparr>]
        (make_location ''hospital'' [''name'' \<mapsto> ''Clinic A''] 1 2 ''0 m'' 0)
   \<and> loc_key exact_lib (make_location ''hospital'' [''name'' \<mapsto> ''Clinic A''] 1 2 ''0 m'' 0) =
       ''1.00000,2.00000''"
proof -
  let ?a = "\<lparr>e_lat = Some (1::real), e_lon = Some 2, e_center = None,
              e_tags = Some [''name'' \<mapsto> ''Clinic A'']\<rparr>"
  let ?b = "\<lparr>e_lat = None, e_lon = None,
              e_center = Some \<lparr>c_lat = Some (1::real), c_lon = Some 2\<rparr>,
              e_tags = Some [''name'' \<mapsto> ''Clinic B'']\<rparr>"
  let ?post = "\<lambda>_ :: http_request. Inr \<lparr>p_elements = Some [?a, ?b]\<rparr> :: exn + real payload"
  let ?GET = "[''lat'' \<mapsto> ''1'', ''lon'' \<mapsto> ''2'', ''category'' \<mapsto> ''hospital'']"
  let ?l = "make_location ''hospital'' [''name'' \<mapsto> ''Clinic A''] (1::real) 2 ''0 m'' 0"
  have e: "fst (peza_api exact_lib ?post ?GET) =
     \<lparr>status = 200,
      body = SuccessBody 1 [?l]
        \<lparr>sp_latitude = 1, sp_longitude = 2, sp_category = ''hospital'',
         sp_radius_meters = 5000\<rparr>\<rparr>"
    by (simp add: request_defs element_defs exact_distance_zero)
  from ranked_locations [OF e] obtain call data where
    "?post call = Inr data"
    "\<forall>l \<in> set [?l]. built_from_first exact_lib ''hospital'' 1 2 (payload_elements data) l"
    by auto
  then have "built_from_first exact_lib ''hospital'' 1 2 [?a, ?b] ?l"
    by (auto simp: payload_elements_def)
  moreover have "loc_key exact_lib ?l = ''1.00000,2.00000''"
    by (simp add: loc_key_def fixed_str_def str_int_def)
  ultimately show ?thesis
    using e by simp
qed

text \<open>
  The last clause of the claim as the specification words it fails. The key of an
  element is recorded before the name is looked at: when the first occurrence of a key
  is an unnamed element that the name filter drops, a later named element with the same
  key is dropped as a duplicate, and no entry with that key is returned.
\<close>

theorem unnamed_first_occurrence_counterexample:
  "fst (peza_api exact_lib
         (\<lambda>_. Inr \<lparr>p_elements = Some
            [\<lparr>e_lat = Some 1, e_lon = Some 2, e_center = None, e_tags = None\<rparr>,
             \<lparr>e_lat = Some 1, e_lon = Some 2, e_center = None,
              e_tags = Some [''name'' \<mapsto> ''Clinic B'']\<rparr>]\<rparr>)
         [''lat'' \<mapsto> ''1'', ''lon'' \<mapsto> ''2'']) =
     \<lparr>status = 200,
      body = SuccessBody 0 []
        \<lparr>sp_latitude = 1, sp_longitude = 2, sp_category = ''all'',
         sp_radius_meters = 5000\<rparr>\<rparr>"
  by (simp add: request_defs element_defs)

section \<open>Unnamed features\<close>



section \<open>Coordinates of an element\<close>

text \<open>
  Where no coordinate of the element is zero, the loop resolves the coordinate as the
  specification says: each of latitude and longitude is the direct field when present
  and the field of the centre otherwise, and the element is skipped exactly when one of
  the two is found in neither place.
\<close>

theorem resolve_nonzero:
  assumes "\<forall>x. Some x \<in> {e_lat e, e_lon e,
                          (case e_center e of None \<Rightarrow> None | Some c \<Rightarrow> c_lat c),
                          (case e_center e of None \<Rightarrow> None | Some c \<Rightarrow> c_lon c)}
               \<longrightarrow> \<not> f_is_zero L x"
  shows "resolve L e =
           (case (case e_lat e of
                    Some a \<Rightarrow> Some a
                  | None \<Rightarrow> (case e_center e of None \<Rightarrow> None | Some c \<Rightarrow> c_lat c),
                  case e_lon e of
                    Some b \<Rightarrow> Some b
                  | None \<Rightarrow> (case e_center e of None \<Rightarrow> None | Some c \<Rightarrow> c_lon c)) of
              (Some a, Some b) \<Rightarrow> Some (a, b)
            | _ \<Rightarrow> None)"
  using assms
  by (auto simp: resolve_def elem_lat_def elem_lon_def py_or_def falsy_def
           split: option.splits)

theorem resolve_nonzero_witness:
  "resolve exact_lib
     \<lparr>e_lat = Some 1, e_lon = None, e_center = Some \<lparr>c_lat = Some 5, c_lon = Some 6\<rparr>,
      e_tags = None\<rparr> = Some (1, 6)
   \<and> resolve exact_lib
       \<lparr>e_lat = None, e_lon = Some 2, e_center = None, e_tags = None\<rparr> = None"
  using resolve_nonzero [of "\<lparr>e_lat = Some 1, e_lon = None,
      e_center = Some \<lparr>c_lat = Some 5, c_lon = Some 6\<rparr>, e_tags = None\<rparr>" exact_lib]
    resolve_nonzero [of "\<lparr>e_lat = None, e_lon = Some (2::real), e_center = None,
      e_tags = None\<rparr>" exact_lib]
  by simp

text \<open>
  Claim C3 does not hold of the code. The coordinate is chosen with \<open>or\<close> and tested
  with \<open>not\<close>, and both treat the number zero like a missing value. A named hospital
  node at latitude 0 is skipped, and a zero latitude of a node is replaced by the
  latitude of its centre when it has one.
\<close>

theorem equator_feature_skipped:
  "fst (peza_api exact_lib
         (\<lambda>_. Inr \<lparr>p_elements = Some
            [\<lparr>e_lat = Some 0, e_lon = Some 33, e_center = None,
              e_tags = Some [''name'' \<mapsto> ''Equator Clinic'', ''amenity'' \<mapsto> ''hospital'']\<rparr>]\<rparr>)
         [''lat'' \<mapsto> ''1'', ''lon'' \<mapsto> ''33'', ''category'' \<mapsto> ''hospital'']) =
     \<lparr>status = 200,
      body = SuccessBody 0 []
        \<lparr>sp_latitude = 1, sp_longitude = 33, sp_category = ''hospital'',
         sp_radius_meters = 5000\<rparr>\<rparr>
   \<and> resolve exact_lib
        \<lparr>e_lat = Some 0, e_lon = Some 33, e_center = Some \<lparr>c_lat = Some 5, c_lon = Some 6\<rparr>,
         e_tags = None\<rparr> = Some (5, 33)"
  by (simp add: request_defs element_defs)

end
